theory Spec2Isabelle
  imports Main
begin

section \<open>JavaScript values and strings\<close>

text \<open>
  A JavaScript string is a sequence of code units. The model uses \<open>string\<close>, whose
  characters are the 256 code units U+0000 to U+00FF; every literal of the source is
  in that range. On it \<open>String.prototype.toLowerCase\<close> sends \<open>A\<close>..\<open>Z\<close> and the
  capital letters U+00C0..U+00DE (U+00D7, the multiplication sign, apart) to the code
  unit 32 above, and leaves every other code unit alone.
\<close>

definition toLowerCase_unit :: "char \<Rightarrow> char" where
  "toLowerCase_unit c =
     (let n = (of_char c :: nat)
      in if (65 \<le> n \<and> n \<le> 90) \<or> (192 \<le> n \<and> n \<le> 222 \<and> n \<noteq> 215)
         then char_of (n + 32) else c)"

definition toLowerCase :: "string \<Rightarrow> string" where
  "toLowerCase s = map toLowerCase_unit s"

text \<open>\<open>m.startsWith(s)\<close> and \<open>m.includes(s)\<close>: \<open>s\<close> occurs in \<open>m\<close> at the front,
  respectively at some position. They compare code units, whatever the alphabet.\<close>

fun str_startsWith :: "'u list \<Rightarrow> 'u list \<Rightarrow> bool" where
  "str_startsWith m [] = True"
| "str_startsWith [] (d # ds) = False"
| "str_startsWith (c # cs) (d # ds) = (c = d \<and> str_startsWith cs ds)"

fun str_includes :: "'u list \<Rightarrow> 'u list \<Rightarrow> bool" where
  "str_includes [] s = (s = [])"
| "str_includes (c # cs) s = (str_startsWith (c # cs) s \<or> str_includes cs s)"

text \<open>
  A value of type \<open>unknown\<close>, as caught by a \<open>catch\<close> clause: either an instance of
  \<open>Error\<close>, with its \<open>name\<close> and \<open>message\<close> (a string, by the type of \<open>Error\<close>), or any
  other value, kept by what \<open>String(value)\<close> renders.
\<close>

datatype js_value =
    ErrorObject (error_name: string) (error_message: string)
  | NonError (rendering: string)

text \<open>\<open>error instanceof Error\<close>\<close>

fun instanceofError :: "js_value \<Rightarrow> bool" where
  "instanceofError (ErrorObject n m) = True"
| "instanceofError (NonError v) = False"

section \<open>errors.ts\<close>

datatype SourceControlErrorType = Transient | Permanent

text \<open>
  The class, with the representation of message strings \<open>'m\<close> and of thrown values \<open>'v\<close>
  left open: the definitions of this section use \<open>string\<close> and \<open>js_value\<close>, those of the
  next section the values met at run time.
\<close>

record ('m, 'v) SourceControlProviderError =
  message :: 'm
  errorType :: SourceControlErrorType
  httpStatus :: "int option"
  cause :: "'v option"

text \<open>The constructor; an optional parameter left out is \<open>None\<close>.\<close>

definition new_SourceControlProviderError ::
  "'m \<Rightarrow> SourceControlErrorType \<Rightarrow> int option \<Rightarrow> 'v option
     \<Rightarrow> ('m, 'v) SourceControlProviderError" where
  "new_SourceControlProviderError msg ty st c =
     \<lparr>message = msg, errorType = ty, httpStatus = st, cause = c\<rparr>"

definition isTransientStatus :: "int \<Rightarrow> bool" where
  "isTransientStatus status =
     (status = 429 \<or> status = 502 \<or> status = 503 \<or> status = 504)"

fun isTransientNetworkError :: "js_value \<Rightarrow> bool" where
  "isTransientNetworkError (ErrorObject n m) =
     (let message = toLowerCase m
      in str_includes message ''fetch failed'' \<or>
         str_includes message ''etimedout'' \<or>
         str_includes message ''econnreset'' \<or>
         str_includes message ''econnrefused'' \<or>
         str_includes message ''network'' \<or>
         str_includes message ''timeout'' \<or>
         str_includes message ''aborted'')"
| "isTransientNetworkError (NonError v) = False"

definition fromFetchError ::
  "string \<Rightarrow> js_value \<Rightarrow> int option \<Rightarrow> (string, js_value) SourceControlProviderError" where
  "fromFetchError msg error status =
     (case status of
        Some st \<Rightarrow>
          new_SourceControlProviderError msg
            (if isTransientStatus st then Transient else Permanent)
            (Some st)
            (if instanceofError error then Some error else None)
      | None \<Rightarrow>
          new_SourceControlProviderError msg
            (if isTransientNetworkError error then Transient else Permanent)
            None
            (if instanceofError error then Some error else None))"

section \<open>errors.ts on the values met at run time\<close>

text \<open>
  The section above takes the raw error as TypeScript types it once \<open>instanceof Error\<close>
  holds: its message is a string, here over U+0000 to U+00FF. At run time the raw error
  is any value: an \<open>Error\<close> object may carry a message that is not a string, and a message
  may hold code units beyond U+00FF. This section embeds the same lines of \<open>errors.ts\<close>
  for such values.

  The alphabet adds five code units to U+0000..U+00FF: U+0130 (capital I with dot
  above), U+0131 (small dotless i), U+017F (small long s), U+0307 (combining dot above)
  and U+212A (Kelvin sign). \<open>String.prototype.toLowerCase\<close> on them: U+0130 gives the two
  units \<open>i\<close>, U+0307; U+212A gives \<open>k\<close>; U+0131, U+017F and U+0307 are unchanged (the two
  small letters have the capitals \<open>I\<close> and \<open>S\<close>).
\<close>

datatype code_unit =
    Latin1 char
  | CapitalIDotAbove
  | SmallDotlessI
  | SmallLongS
  | CombiningDotAbove
  | KelvinSign

type_synonym utf16 = "code_unit list"

text \<open>A string literal of the source, as a run-time string.\<close>

definition literal :: "string \<Rightarrow> utf16" where
  "literal s = map Latin1 s"

fun toLowerCase_code_unit :: "code_unit \<Rightarrow> utf16" where
  "toLowerCase_code_unit (Latin1 c) = [Latin1 (toLowerCase_unit c)]"
| "toLowerCase_code_unit CapitalIDotAbove = [Latin1 CHR ''i'', CombiningDotAbove]"
| "toLowerCase_code_unit SmallDotlessI = [SmallDotlessI]"
| "toLowerCase_code_unit SmallLongS = [SmallLongS]"
| "toLowerCase_code_unit CombiningDotAbove = [CombiningDotAbove]"
| "toLowerCase_code_unit KelvinSign = [Latin1 CHR ''k'']"

definition toLowerCase_utf16 :: "utf16 \<Rightarrow> utf16" where
  "toLowerCase_utf16 s = concat (map toLowerCase_code_unit s)"

text \<open>
  A thrown value at run time: an instance of \<open>Error\<close> with its \<open>name\<close> and its \<open>message\<close>,
  which is \<open>None\<close> when the property is not a string (\<open>undefined\<close>, a number, an object),
  or any other value, named by a description. Calling \<open>toLowerCase\<close> on a message that
  is not a string throws a \<open>TypeError\<close>.
\<close>

datatype runtime_value =
    RuntimeError (runtime_name: string) (runtime_message: "utf16 option")
  | RuntimeOther string

datatype js_exception = TypeError

fun instanceofError_runtime :: "runtime_value \<Rightarrow> bool" where
  "instanceofError_runtime (RuntimeError n m) = True"
| "instanceofError_runtime (RuntimeOther v) = False"

fun isTransientNetworkError_runtime :: "runtime_value \<Rightarrow> js_exception + bool" where
  "isTransientNetworkError_runtime (RuntimeError n None) = Inl TypeError"
| "isTransientNetworkError_runtime (RuntimeError n (Some m)) =
     Inr (let message = toLowerCase_utf16 m
          in str_includes message (literal ''fetch failed'') \<or>
             str_includes message (literal ''etimedout'') \<or>
             str_includes message (literal ''econnreset'') \<or>
             str_includes message (literal ''econnrefused'') \<or>
             str_includes message (literal ''network'') \<or>
             str_includes message (literal ''timeout'') \<or>
             str_includes message (literal ''aborted''))"
| "isTransientNetworkError_runtime (RuntimeOther v) = Inr False"

definition fromFetchError_runtime ::
  "'m \<Rightarrow> runtime_value \<Rightarrow> int option
     \<Rightarrow> js_exception + ('m, runtime_value) SourceControlProviderError" where
  "fromFetchError_runtime msg error status =
     (case status of
        Some st \<Rightarrow>
          Inr (new_SourceControlProviderError msg
                 (if isTransientStatus st then Transient else Permanent)
                 (Some st)
                 (if instanceofError_runtime error then Some error else None))
      | None \<Rightarrow>
          (case isTransientNetworkError_runtime error of
             Inl exn \<Rightarrow> Inl exn
           | Inr transient \<Rightarrow>
               Inr (new_SourceControlProviderError msg
                      (if transient then Transient else Permanent)
                      None
                      (if instanceofError_runtime error then Some error else None))))"

text \<open>A value of the section above, as the run-time value it stands for.\<close>

fun runtime_of :: "js_value \<Rightarrow> runtime_value" where
  "runtime_of (ErrorObject n m) = RuntimeError n (Some (literal m))"
| "runtime_of (NonError v) = RuntimeOther v"

section \<open>The words of the specification about messages\<close>

text \<open>
  The substrings the specification lists as signs of a transient network condition.
\<close>

definition network_markers :: "string list" where
  "network_markers =
     [''fetch failed'', ''etimedout'', ''econnreset'', ''econnrefused'',
      ''network'', ''timeout'', ''aborted'']"

text \<open>
  Two code units are the same letter up to case when they are equal, or one is a capital
  letter and the other its small letter. Two messages differ only in letter case when
  they have the same length and agree position by position up to case. A message
  mentions a substring, ignoring case, when some window of the message differs from
  the substring only in letter case.
\<close>

definition is_capital :: "char \<Rightarrow> bool" where
  "is_capital c =
     (let n = (of_char c :: nat)
      in (65 \<le> n \<and> n \<le> 90) \<or> (192 \<le> n \<and> n \<le> 222 \<and> n \<noteq> 215))"

definition small_of :: "char \<Rightarrow> char" where
  "small_of c = char_of ((of_char c :: nat) + 32)"

definition same_letter :: "char \<Rightarrow> char \<Rightarrow> bool" where
  "same_letter c d =
     (c = d \<or> (is_capital c \<and> d = small_of c) \<or> (is_capital d \<and> c = small_of d))"

definition case_variant :: "string \<Rightarrow> string \<Rightarrow> bool" where
  "case_variant m m' = list_all2 same_letter m m'"

definition mentions :: "string \<Rightarrow> string \<Rightarrow> bool" where
  "mentions m s =
     list_ex (\<lambda>i. case_variant (take (length s) (drop i m)) s) [0 ..< Suc (length m)]"

text \<open>
  The same on run-time strings. Two code units are the same letter up to Latin case
  when they are equal or are a capital and its small letter within U+0000..U+00FF.
  Beyond that range three more pairs of a small letter and its capital meet a letter of
  the listed substrings: U+017F and \<open>S\<close>, U+0131 and \<open>I\<close>, \<open>k\<close> and U+212A.
\<close>

fun same_letter_latin :: "code_unit \<Rightarrow> code_unit \<Rightarrow> bool" where
  "same_letter_latin (Latin1 c) (Latin1 d) = same_letter c d"
| "same_letter_latin a b = (a = b)"

definition case_variant_latin :: "utf16 \<Rightarrow> utf16 \<Rightarrow> bool" where
  "case_variant_latin m m' = list_all2 same_letter_latin m m'"

definition small_capital_pairs :: "(code_unit \<times> code_unit) list" where
  "small_capital_pairs =
     [(SmallLongS, Latin1 CHR ''S''), (SmallDotlessI, Latin1 CHR ''I''),
      (Latin1 CHR ''k'', KelvinSign)]"

definition same_letter_utf16 :: "code_unit \<Rightarrow> code_unit \<Rightarrow> bool" where
  "same_letter_utf16 a b =
     (same_letter_latin a b \<or> List.member small_capital_pairs (a, b)
        \<or> List.member small_capital_pairs (b, a))"

definition case_variant_utf16 :: "utf16 \<Rightarrow> utf16 \<Rightarrow> bool" where
  "case_variant_utf16 m m' = list_all2 same_letter_utf16 m m'"

section \<open>github-provider.ts\<close>

text \<open>
  \<open>String(n)\<close> for a number that is an integer (a pull request number, an HTTP status):
  its decimal digits, after a minus sign when negative.
\<close>

fun digit_chars :: "nat \<Rightarrow> string" where
  "digit_chars n =
     (if n < 10 then [char_of (48 + n)]
      else digit_chars (n div 10) @ [char_of (48 + n mod 10)])"

declare digit_chars.simps [simp del]

definition Number_toString :: "int \<Rightarrow> string" where
  "Number_toString i =
     (if i < 0 then CHR ''-'' # digit_chars (nat (- i)) else digit_chars (nat i))"

definition USER_AGENT :: string where
  "USER_AGENT = ''Open-Inspect''"

definition GITHUB_API_BASE :: string where
  "GITHUB_API_BASE = ''https://api.github.com''"

text \<open>
  The HTTP layer. \<open>fetchWithTimeout\<close> belongs to another module and is a parameter of
  every function that calls it: it maps a request to a response or to a rejection with
  a thrown value. The request body is the object handed to \<open>JSON.stringify\<close>. Reading
  the body of a response, as text or as JSON, may reject as well.
\<close>

datatype request_body =
    PullRequestBody (body_title: string) (body_body: string) (body_head: string)
      (body_base: string) (body_draft: bool)
  | LabelsBody "string list"
  | ReviewersBody "string list"

record http_request =
  req_url :: string
  req_method :: string
  req_headers :: "(string \<times> string) list"
  req_body :: request_body

record 'd Response =
  ok :: bool
  status :: int
  response_text :: "js_value + string"
  response_json :: "js_value + 'd"

datatype 'd fetch_outcome = Resolved "'d Response" | Rejected js_value

text \<open>What a provider method throws: an error it classified, or a value it let through.\<close>

datatype thrown =
    Classified "(string, js_value) SourceControlProviderError"
  | Unclassified js_value

text \<open>\<open>console.warn(text)\<close> and \<open>console.warn(text, error)\<close>; the console is the list of
  calls made so far.\<close>

datatype console_call = Warn string "js_value option"

type_synonym console = "console_call list"

text \<open>
  The types of \<open>../types\<close>, with the fields the provider reads. Fields of the GitHub
  response carry the prefix \<open>data_\<close> and those of the result the prefix \<open>pr_\<close> where the
  same name is a field of the configuration.
\<close>

record Repository =
  owner :: string
  name :: string

record CreatePullRequestConfig =
  repository :: Repository
  title :: string
  body :: string
  sourceBranch :: string
  targetBranch :: string
  draft :: "bool option"
  labels :: "string list option"
  reviewers :: "string list option"

record SourceControlAuthContext =
  token :: string

datatype PullRequestState = Draft | Merged | Open | Closed

record pull_request_data =
  data_number :: int
  data_html_url :: string
  data_url :: string
  data_state :: string
  data_draft :: bool
  data_merged :: bool
  data_head_ref :: string
  data_base_ref :: string

record CreatePullRequestResult =
  pr_id :: int
  webUrl :: string
  apiUrl :: string
  pr_state :: PullRequestState
  pr_sourceBranch :: string
  pr_targetBranch :: string

record GitPushAuthContext =
  authType :: string
  push_token :: string

text \<open>
  \<open>GitHubProviderConfig\<close> is declared in a module of its own; its one field read here is
  the optional \<open>appConfig\<close>, of a type \<open>'app\<close> left open. The constructor of the provider
  copies it; a configuration left out is the empty object.
\<close>

record 'app GitHubProviderConfig =
  config_appConfig :: "'app option"

record 'app GitHubSourceControlProvider =
  appConfig :: "'app option"

definition new_GitHubSourceControlProvider ::
  "'app GitHubProviderConfig \<Rightarrow> 'app GitHubSourceControlProvider" where
  "new_GitHubSourceControlProvider config = \<lparr>appConfig = config_appConfig config\<rparr>"

definition api_headers :: "string \<Rightarrow> (string \<times> string) list" where
  "api_headers accessToken =
     [(''Accept'', ''application/vnd.github.v3+json''),
      (''Authorization'', ''Bearer '' @ accessToken),
      (''User-Agent'', USER_AGENT),
      (''Content-Type'', ''application/json'')]"

text \<open>
  \<open>addLabels\<close> and \<open>requestReviewers\<close>: the whole body is inside \<open>try\<close>, and the \<open>catch\<close>
  clause warns and returns. \<open>labels_request\<close> and \<open>reviewers_request\<close> are the arguments
  they hand to \<open>fetchWithTimeout\<close>.
\<close>

definition labels_request :: "string \<Rightarrow> string \<Rightarrow> string \<Rightarrow> int \<Rightarrow> string list \<Rightarrow> http_request" where
  "labels_request accessToken owner' repo prNumber labels' =
     \<lparr>req_url = GITHUB_API_BASE @ ''/repos/'' @ owner' @ ''/'' @ repo @ ''/issues/''
                  @ Number_toString prNumber @ ''/labels'',
      req_method = ''POST'',
      req_headers = api_headers accessToken,
      req_body = LabelsBody labels'\<rparr>"

definition addLabels ::
  "(http_request \<Rightarrow> 'd fetch_outcome) \<Rightarrow> string \<Rightarrow> string \<Rightarrow> string \<Rightarrow> int \<Rightarrow> string list
     \<Rightarrow> console \<Rightarrow> (thrown + unit) \<times> console" where
  "addLabels fetchWithTimeout accessToken owner' repo prNumber labels' con =
     (case fetchWithTimeout (labels_request accessToken owner' repo prNumber labels') of
        Resolved response \<Rightarrow>
          if \<not> ok response
          then (Inr (), con @ [Warn (''Failed to add labels to PR #'' @ Number_toString prNumber
                                      @ '': '' @ Number_toString (status response)) None])
          else (Inr (), con)
      | Rejected error \<Rightarrow>
          (Inr (), con @ [Warn (''Failed to add labels to PR #'' @ Number_toString prNumber @ '':'')
                            (Some error)]))"

definition reviewers_request :: "string \<Rightarrow> string \<Rightarrow> string \<Rightarrow> int \<Rightarrow> string list \<Rightarrow> http_request" where
  "reviewers_request accessToken owner' repo prNumber reviewers' =
     \<lparr>req_url = GITHUB_API_BASE @ ''/repos/'' @ owner' @ ''/'' @ repo @ ''/pulls/''
                  @ Number_toString prNumber @ ''/requested_reviewers'',
      req_method = ''POST'',
      req_headers = api_headers accessToken,
      req_body = ReviewersBody reviewers'\<rparr>"

definition requestReviewers ::
  "(http_request \<Rightarrow> 'd fetch_outcome) \<Rightarrow> string \<Rightarrow> string \<Rightarrow> string \<Rightarrow> int \<Rightarrow> string list
     \<Rightarrow> console \<Rightarrow> (thrown + unit) \<times> console" where
  "requestReviewers fetchWithTimeout accessToken owner' repo prNumber reviewers' con =
     (case fetchWithTimeout (reviewers_request accessToken owner' repo prNumber reviewers') of
        Resolved response \<Rightarrow>
          if \<not> ok response
          then (Inr (), con @ [Warn (''Failed to request reviewers for PR #''
                                      @ Number_toString prNumber
                                      @ '': '' @ Number_toString (status response)) None])
          else (Inr (), con)
      | Rejected error \<Rightarrow>
          (Inr (), con @ [Warn (''Failed to request reviewers for PR #''
                                  @ Number_toString prNumber @ '':'')
                            (Some error)]))"

text \<open>The request that creates the pull request.\<close>

definition create_request :: "SourceControlAuthContext \<Rightarrow> CreatePullRequestConfig \<Rightarrow> http_request" where
  "create_request auth config =
     \<lparr>req_url = GITHUB_API_BASE @ ''/repos/'' @ owner (repository config) @ ''/''
                  @ name (repository config) @ ''/pulls'',
      req_method = ''POST'',
      req_headers = api_headers (token auth),
      req_body = PullRequestBody (title config) (body config) (sourceBranch config)
                   (targetBranch config) (draft config = Some True)\<rparr>"

definition createPullRequest ::
  "(http_request \<Rightarrow> pull_request_data fetch_outcome) \<Rightarrow> SourceControlAuthContext
     \<Rightarrow> CreatePullRequestConfig \<Rightarrow> console
     \<Rightarrow> (thrown + CreatePullRequestResult) \<times> console" where
  "createPullRequest fetchWithTimeout auth config con =
     (case fetchWithTimeout (create_request auth config) of
        Rejected e \<Rightarrow> (Inl (Unclassified e), con)
      | Resolved response \<Rightarrow>
          if \<not> ok response
          then (case response_text response of
                  Inl e \<Rightarrow> (Inl (Unclassified e), con)
                | Inr error \<Rightarrow>
                    (Inl (Classified (fromFetchError
                            (''Failed to create PR: '' @ Number_toString (status response)
                               @ '' '' @ error)
                            (ErrorObject ''Error'' error)
                            (Some (status response)))), con))
          else (case response_json response of
                  Inl e \<Rightarrow> (Inl (Unclassified e), con)
                | Inr data \<Rightarrow>
                    (let state = (if data_draft data then Draft
                                  else if data_merged data then Merged
                                  else if data_state data = ''open'' then Open
                                  else if data_state data = ''closed'' then Closed
                                  else Open);
                         result = \<lparr>pr_id = data_number data,
                                     webUrl = data_html_url data,
                                     apiUrl = data_url data,
                                     pr_state = state,
                                     pr_sourceBranch = data_head_ref data,
                                     pr_targetBranch = data_base_ref data\<rparr>
                     in case (case labels config of
                                Some ls \<Rightarrow>
                                  if length ls > 0
                                  then addLabels fetchWithTimeout (token auth)
                                         (owner (repository config)) (name (repository config))
                                         (data_number data) ls con
                                  else (Inr (), con)
                              | None \<Rightarrow> (Inr (), con)) of
                          (Inl e, con1) \<Rightarrow> (Inl e, con1)
                        | (Inr u, con1) \<Rightarrow>
                            (case (case reviewers config of
                                     Some rs \<Rightarrow>
                                       if length rs > 0
                                       then requestReviewers fetchWithTimeout (token auth)
                                              (owner (repository config))
                                              (name (repository config))
                                              (data_number data) rs con1
                                       else (Inr (), con1)
                                   | None \<Rightarrow> (Inr (), con1)) of
                               (Inl e, con2) \<Rightarrow> (Inl e, con2)
                             | (Inr u', con2) \<Rightarrow> (Inr result, con2)))))"

text \<open>
  \<open>generatePushAuth\<close>. \<open>generateInstallationToken\<close> belongs to another module and is a
  parameter: it returns a token or throws. The last argument and the second component
  of the result list the configurations it has been called with so far.
\<close>

definition generatePushAuth ::
  "('app \<Rightarrow> js_value + string) \<Rightarrow> 'app GitHubSourceControlProvider \<Rightarrow> 'app list
     \<Rightarrow> (thrown + GitPushAuthContext) \<times> 'app list" where
  "generatePushAuth generateInstallationToken this calls =
     (case appConfig this of
        None \<Rightarrow>
          (Inl (Classified (new_SourceControlProviderError
                  ''GitHub App not configured - cannot generate push auth''
                  Permanent None None)), calls)
      | Some cfg \<Rightarrow>
          (case generateInstallationToken cfg of
             Inr tok \<Rightarrow> (Inr \<lparr>authType = ''app'', push_token = tok\<rparr>, calls @ [cfg])
           | Inl error \<Rightarrow>
               (Inl (Classified (fromFetchError
                       (''Failed to generate GitHub App token: ''
                          @ (case error of ErrorObject n m \<Rightarrow> m | NonError v \<Rightarrow> v))
                       error None)), calls @ [cfg])))"

section \<open>Example inputs\<close>

text \<open>
  A pull request on \<open>acme/widgets\<close> with one label and one reviewer, and an HTTP layer
  that creates the pull request, rejects the request for labels and answers 422 to the
  request for reviewers.
\<close>

definition example_auth :: SourceControlAuthContext where
  "example_auth = \<lparr>token = ''ghs_token''\<rparr>"

definition example_config :: CreatePullRequestConfig where
  "example_config =
     \<lparr>repository = \<lparr>owner = ''acme'', name = ''widgets''\<rparr>,
      title = ''Add parser'', body = ''Adds the parser'',
      sourceBranch = ''feature/parser'', targetBranch = ''main'',
      draft = Some True, labels = Some [''bug''], reviewers = Some [''octocat'']\<rparr>"

definition example_data :: pull_request_data where
  "example_data =
     \<lparr>data_number = 7, data_html_url = ''https://github.com/acme/widgets/pull/7'',
      data_url = ''https://api.github.com/repos/acme/widgets/pulls/7'',
      data_state = ''closed'', data_draft = True, data_merged = True,
      data_head_ref = ''feature/parser'', data_base_ref = ''main''\<rparr>"

definition example_response :: "pull_request_data \<Rightarrow> pull_request_data Response" where
  "example_response data =
     \<lparr>ok = True, status = 201, response_text = Inr ''{}'', response_json = Inr data\<rparr>"

definition example_fetch :: "pull_request_data \<Rightarrow> http_request \<Rightarrow> pull_request_data fetch_outcome" where
  "example_fetch data req =
     (case req_body req of
        PullRequestBody t b h a d \<Rightarrow> Resolved (example_response data)
      | LabelsBody ls \<Rightarrow> Rejected (ErrorObject ''TypeError'' ''fetch failed'')
      | ReviewersBody rs \<Rightarrow>
          Resolved \<lparr>ok = False, status = 422, response_text = Inr ''Unprocessable'',
                    response_json = Inl (ErrorObject ''SyntaxError'' ''Unexpected token'')\<rparr>)"

section \<open>Substrings and letter case\<close>

lemma str_startsWith_iff: "str_startsWith m s = (\<exists>post. m = s @ post)"
  by (induction m s rule: str_startsWith.induct) auto

lemma str_includes_iff: "str_includes m s = (\<exists>pre post. m = pre @ s @ post)"
proof (induction m)
  case Nil
  then show ?case by auto
next
  case (Cons c cs)
  show ?case
  proof
    assume "str_includes (c # cs) s"
    then consider "str_startsWith (c # cs) s" | "str_includes cs s" by auto
    then show "\<exists>pre post. c # cs = pre @ s @ post"
    proof cases
      case 1
      then obtain post where "c # cs = s @ post" by (auto simp: str_startsWith_iff)
      then have "c # cs = [] @ s @ post" by simp
      then show ?thesis by blast
    next
      case 2
      then obtain pre post where "cs = pre @ s @ post" using Cons.IH by auto
      then have "c # cs = (c # pre) @ s @ post" by simp
      then show ?thesis by blast
    qed
  next
    assume "\<exists>pre post. c # cs = pre @ s @ post"
    then obtain pre post where eq: "c # cs = pre @ s @ post" by blast
    show "str_includes (c # cs) s"
    proof (cases pre)
      case Nil
      with eq have "str_startsWith (c # cs) s" by (auto simp: str_startsWith_iff)
      then show ?thesis by simp
    next
      case (Cons p ps)
      with eq have "cs = ps @ s @ post" by simp
      then have "str_includes cs s" using Cons.IH by blast
      then show ?thesis by simp
    qed
  qed
qed

lemma small_of_not_capital: "is_capital c \<Longrightarrow> \<not> is_capital (small_of c)"
  by (auto simp: is_capital_def small_of_def Let_def)

lemma toLowerCase_unit_capital: "is_capital c \<Longrightarrow> toLowerCase_unit c = small_of c"
  by (simp add: is_capital_def small_of_def toLowerCase_unit_def Let_def)

lemma toLowerCase_unit_other: "\<not> is_capital c \<Longrightarrow> toLowerCase_unit c = c"
  by (auto simp add: is_capital_def toLowerCase_unit_def Let_def)

lemma same_letter_toLowerCase_unit:
  "same_letter c d \<Longrightarrow> toLowerCase_unit c = toLowerCase_unit d"
  unfolding same_letter_def
  by (metis small_of_not_capital toLowerCase_unit_capital toLowerCase_unit_other)

lemma toLowerCase_unit_same_letter: "same_letter c (toLowerCase_unit c)"
  by (cases "is_capital c")
     (simp_all add: same_letter_def toLowerCase_unit_capital toLowerCase_unit_other)

lemma case_variant_toLowerCase:
  "case_variant m m' \<Longrightarrow> toLowerCase m = toLowerCase m'"
  unfolding case_variant_def toLowerCase_def
  by (induction rule: list_all2_induct) (auto dest: same_letter_toLowerCase_unit)

lemma toLowerCase_case_variant: "case_variant m (toLowerCase m)"
  unfolding case_variant_def toLowerCase_def
  by (induction m) (auto simp: toLowerCase_unit_same_letter)

lemma toLowerCase_append: "toLowerCase (xs @ ys) = toLowerCase xs @ toLowerCase ys"
  by (simp add: toLowerCase_def)

lemma case_variant_length: "case_variant m m' \<Longrightarrow> length m = length m'"
  by (simp add: case_variant_def list_all2_lengthD)

lemma mentions_iff:
  "mentions m s = (\<exists>pre w post. m = pre @ w @ post \<and> case_variant w s)"
proof
  assume "mentions m s"
  then obtain i where "case_variant (take (length s) (drop i m)) s"
    unfolding mentions_def list_ex_iff by blast
  moreover have "m = take i m @ take (length s) (drop i m) @ drop (length s) (drop i m)"
    by (simp only: append_take_drop_id)
  ultimately show "\<exists>pre w post. m = pre @ w @ post \<and> case_variant w s" by blast
next
  assume "\<exists>pre w post. m = pre @ w @ post \<and> case_variant w s"
  then obtain pre w post where m: "m = pre @ w @ post" and cv: "case_variant w s" by blast
  have len: "length w = length s" using cv by (rule case_variant_length)
  have "drop (length pre) m = w @ post" using m by simp
  then have "take (length s) (drop (length pre) m) = w" using len by simp
  then have win: "case_variant (take (length s) (drop (length pre) m)) s" using cv by simp
  have "length pre < Suc (length m)" using m by simp
  then have "length pre \<in> set [0 ..< Suc (length m)]" by (simp only: set_upt atLeastLessThan_iff) simp
  then show "mentions m s" unfolding mentions_def list_ex_iff using win by (rule bexI [rotated])
qed

lemma mentions_window:
  assumes "i \<le> length m" and "case_variant (take (length s) (drop i m)) s"
  shows "mentions m s"
proof -
  have "i \<in> set [0 ..< Suc (length m)]" using assms(1) by auto
  then show ?thesis unfolding mentions_def list_ex_iff using assms(2) by (rule bexI [rotated])
qed

lemma length_toLowerCase: "length (toLowerCase m) = length m"
  by (simp add: toLowerCase_def)

lemma includes_lower_mentions:
  assumes "toLowerCase s = s"
  shows "str_includes (toLowerCase m) s = mentions m s"
proof
  assume "str_includes (toLowerCase m) s"
  then obtain pre post where eq: "toLowerCase m = pre @ s @ post"
    unfolding str_includes_iff by blast
  let ?w = "take (length s) (drop (length pre) m)"
  have "toLowerCase ?w = take (length s) (drop (length pre) (toLowerCase m))"
    by (simp add: toLowerCase_def take_map drop_map)
  also have "\<dots> = s" by (simp add: eq)
  finally have "toLowerCase ?w = s" .
  then have cv: "case_variant ?w s" using toLowerCase_case_variant [of ?w] by simp
  have "length (toLowerCase m) = length pre + length s + length post"
    by (simp add: eq)
  then have "length pre \<le> length m" by (simp add: length_toLowerCase)
  then show "mentions m s" using cv by (rule mentions_window)
next
  assume "mentions m s"
  then obtain pre w post where m: "m = pre @ w @ post" and cv: "case_variant w s"
    unfolding mentions_iff by blast
  have "toLowerCase w = s" using case_variant_toLowerCase [OF cv] assms by simp
  then have "toLowerCase m = toLowerCase pre @ s @ toLowerCase post"
    using m by (simp add: toLowerCase_append)
  then show "str_includes (toLowerCase m) s" unfolding str_includes_iff by blast
qed

section \<open>The classifier of network errors\<close>

lemma network_markers_lower: "s \<in> set network_markers \<Longrightarrow> toLowerCase s = s"
  by (auto simp add: network_markers_def toLowerCase_def toLowerCase_unit_def)

lemma isTransientNetworkError_markers:
  "isTransientNetworkError (ErrorObject n m) =
     list_ex (str_includes (toLowerCase m)) network_markers"
  by (simp add: network_markers_def Let_def)

declare isTransientNetworkError.simps(1) [simp del]

lemma isTransientNetworkError_mentions:
  "isTransientNetworkError (ErrorObject n m) = list_ex (mentions m) network_markers"
proof -
  have "str_includes (toLowerCase m) s = mentions m s" if "s \<in> set network_markers" for s
    using that by (intro includes_lower_mentions network_markers_lower)
  then have "list_ex (str_includes (toLowerCase m)) network_markers
               = list_ex (mentions m) network_markers"
    unfolding list_ex_iff by blast
  then show ?thesis by (simp only: isTransientNetworkError_markers)
qed

lemma errorType_no_status:
  "errorType (fromFetchError msg error None) =
     (if isTransientNetworkError error then Transient else Permanent)"
  by (simp add: fromFetchError_def new_SourceControlProviderError_def)

lemma invalid_credentials_no_marker:
  "\<not> list_ex (str_includes (toLowerCase ''invalid credentials'')) network_markers"
  by code_simp

lemma errorType_with_status:
  "errorType (fromFetchError msg error (Some st)) =
     (if isTransientStatus st then Transient else Permanent)"
  by (simp add: fromFetchError_def new_SourceControlProviderError_def)

lemma invalid_token_no_marker:
  "\<not> list_ex (str_includes (toLowerCase ''invalid token'')) network_markers"
  by code_simp

lemma network_timeout_marker:
  "list_ex (str_includes (toLowerCase ''network timeout'')) network_markers"
  by code_simp

section \<open>The run-time embedding\<close>

text \<open>
  On the values of the typed section the run-time functions return what the typed ones
  compute (\<open>isTransientNetworkError_runtime_of\<close>, \<open>fromFetchError_runtime_of\<close>).
\<close>

lemma toLowerCase_utf16_append:
  "toLowerCase_utf16 (xs @ ys) = toLowerCase_utf16 xs @ toLowerCase_utf16 ys"
  by (simp add: toLowerCase_utf16_def)

lemma toLowerCase_utf16_literal: "toLowerCase_utf16 (literal m) = literal (toLowerCase m)"
  by (induction m) (simp_all add: toLowerCase_utf16_def literal_def toLowerCase_def)

lemma literal_append: "literal (xs @ ys) = literal xs @ literal ys"
  by (simp add: literal_def)

lemma str_startsWith_literal: "str_startsWith (literal m) (literal s) = str_startsWith m s"
  unfolding literal_def by (induction m s rule: str_startsWith.induct) simp_all

lemma str_includes_literal: "str_includes (literal m) (literal s) = str_includes m s"
proof (induction m)
  case Nil
  then show ?case by (simp add: literal_def)
next
  case (Cons c cs)
  have "str_startsWith (literal (c # cs)) (literal s) = str_startsWith (c # cs) s"
    by (rule str_startsWith_literal)
  then show ?case using Cons by (simp add: literal_def)
qed

lemma isTransientNetworkError_runtime_markers:
  "isTransientNetworkError_runtime (RuntimeError n (Some m)) =
     Inr (list_ex (\<lambda>s. str_includes (toLowerCase_utf16 m) (literal s)) network_markers)"
  by (simp add: network_markers_def Let_def)

lemma isTransientNetworkError_runtime_of:
  "isTransientNetworkError_runtime (runtime_of e) = Inr (isTransientNetworkError e)"
proof (cases e)
  case (ErrorObject n m)
  then show ?thesis
    by (simp only: runtime_of.simps isTransientNetworkError_runtime_markers
          isTransientNetworkError_markers toLowerCase_utf16_literal str_includes_literal)
next
  case (NonError v)
  then show ?thesis by simp
qed

lemma instanceofError_runtime_of: "instanceofError_runtime (runtime_of e) = instanceofError e"
  by (cases e) simp_all

lemma fromFetchError_runtime_of:
  "fromFetchError_runtime msg (runtime_of e) stat =
     Inr \<lparr>message = msg, errorType = errorType (fromFetchError msg e stat),
          httpStatus = httpStatus (fromFetchError msg e stat),
          cause = map_option runtime_of (cause (fromFetchError msg e stat))\<rparr>"
  by (cases stat)
     (simp_all add: fromFetchError_runtime_def fromFetchError_def
        new_SourceControlProviderError_def isTransientNetworkError_runtime_of
        instanceofError_runtime_of)

lemma isTransientNetworkError_runtime_contains:
  "isTransientNetworkError_runtime (RuntimeError n (Some m)) =
     Inr (\<exists>s \<in> set network_markers. \<exists>pre post. toLowerCase_utf16 m = pre @ literal s @ post)"
  by (simp only: isTransientNetworkError_runtime_markers list_ex_iff str_includes_iff)

lemma same_letter_latin_lower:
  "same_letter_latin a b \<Longrightarrow> toLowerCase_code_unit a = toLowerCase_code_unit b"
  by (induction a b rule: same_letter_latin.induct)
     (simp_all add: same_letter_toLowerCase_unit)

lemma case_variant_latin_lower:
  "case_variant_latin m m' \<Longrightarrow> toLowerCase_utf16 m = toLowerCase_utf16 m'"
  unfolding case_variant_latin_def toLowerCase_utf16_def
  by (induction rule: list_all2_induct) (auto dest: same_letter_latin_lower)

section \<open>Best-effort calls and the created pull request\<close>

lemma addLabels_returns: "fst (addLabels F tok ow rp n ls con) = Inr ()"
  by (simp add: addLabels_def split: fetch_outcome.split)

lemma requestReviewers_returns: "fst (requestReviewers F tok ow rp n rs con) = Inr ()"
  by (simp add: requestReviewers_def split: fetch_outcome.split)

lemma addLabels_console: "\<exists>ws. snd (addLabels F tok ow rp n ls con) = con @ ws"
  by (simp add: addLabels_def split: fetch_outcome.split)

lemma requestReviewers_console: "\<exists>ws. snd (requestReviewers F tok ow rp n rs con) = con @ ws"
  by (simp add: requestReviewers_def split: fetch_outcome.split)

lemma createPullRequest_created:
  assumes "F (create_request auth config) = Resolved response"
    and "ok response" and "response_json response = Inr data"
  shows "\<exists>ws. createPullRequest F auth config con =
          (Inr \<lparr>pr_id = data_number data, webUrl = data_html_url data,
               apiUrl = data_url data,
               pr_state = (if data_draft data then Draft
                           else if data_merged data then Merged
                           else if data_state data = ''open'' then Open
                           else if data_state data = ''closed'' then Closed
                           else Open),
               pr_sourceBranch = data_head_ref data,
               pr_targetBranch = data_base_ref data\<rparr>, con @ ws)"
    (is "\<exists>ws. _ = (Inr ?result, _)")
proof -
  define step1 where "step1 =
    (case labels config of
       Some ls \<Rightarrow> if length ls > 0
                 then addLabels F (token auth) (owner (repository config))
                        (name (repository config)) (data_number data) ls con
                 else (Inr (), con)
     | None \<Rightarrow> (Inr (), con))"
  have f1: "fst step1 = Inr ()"
    unfolding step1_def by (simp add: addLabels_returns split: option.split)
  have "\<exists>ws. snd step1 = con @ ws"
    unfolding step1_def by (simp add: addLabels_console split: option.split)
  then obtain ws1 where s1: "snd step1 = con @ ws1" by blast
  define con1 where "con1 = con @ ws1"
  have e1: "step1 = (Inr (), con1)" using f1 s1 by (simp add: prod_eq_iff con1_def)
  define step2 where "step2 =
    (case reviewers config of
       Some rs \<Rightarrow> if length rs > 0
                 then requestReviewers F (token auth) (owner (repository config))
                        (name (repository config)) (data_number data) rs con1
                 else (Inr (), con1)
     | None \<Rightarrow> (Inr (), con1))"
  have f2: "fst step2 = Inr ()"
    unfolding step2_def by (simp add: requestReviewers_returns split: option.split)
  have "\<exists>ws. snd step2 = con1 @ ws"
    unfolding step2_def by (simp add: requestReviewers_console split: option.split)
  then obtain ws2 where s2: "snd step2 = con1 @ ws2" by blast
  have e2: "step2 = (Inr (), con1 @ ws2)" using f2 s2 by (simp add: prod_eq_iff)
  have "createPullRequest F auth config con = (Inr ?result, con1 @ ws2)"
    unfolding createPullRequest_def
    using assms e1 [unfolded step1_def] e2 [unfolded step2_def]
    by (simp add: Let_def)
  then have "createPullRequest F auth config con = (Inr ?result, con @ (ws1 @ ws2))"
    by (simp add: con1_def)
  then show ?thesis by blast
qed


lemma createPullRequest_same_outcome:
  assumes "F (create_request auth config) = F' (create_request auth config)"
  shows "fst (createPullRequest F auth config con) = fst (createPullRequest F' auth config con')"
proof (cases "F (create_request auth config)")
  case (Rejected e)
  then show ?thesis using assms by (simp add: createPullRequest_def)
next
  case (Resolved response)
  show ?thesis
  proof (cases "ok response")
    case False
    then show ?thesis
      using Resolved assms by (simp add: createPullRequest_def split: sum.split)
  next
    case True
    show ?thesis
    proof (cases "response_json response")
      case (Inl e)
      then show ?thesis
        using Resolved True assms by (simp add: createPullRequest_def)
    next
      case (Inr data)
      have r': "F' (create_request auth config) = Resolved response"
        using Resolved assms by simp
      show ?thesis
        using createPullRequest_created [of F auth config response data con]
              createPullRequest_created [of F' auth config response data con']
              Resolved r' True Inr
        by auto
    qed
  qed
qed

lemma Number_toString_7: "Number_toString 7 = ''7''"
  by code_simp

lemma Number_toString_422: "Number_toString 422 = ''422''"
  by code_simp

section \<open>Classification by status\<close>

text \<open>
  C1. With a status code supplied, the error type is transient exactly when the status
  is one of 429, 502, 503, 504, and permanent for every other status code.
\<close>

theorem fromFetchError_status_classification:
  "(errorType (fromFetchError msg error (Some st)) = Transient) = (st \<in> {429, 502, 503, 504})
   \<and> (errorType (fromFetchError msg error (Some st)) = Permanent) = (st \<notin> {429, 502, 503, 504})"
  by (simp add: fromFetchError_def new_SourceControlProviderError_def isTransientStatus_def)

theorem fromFetchError_status_classification_witness:
  "errorType (fromFetchError ''Failed to get repository: 429 slow down''
       (ErrorObject ''Error'' ''slow down'') (Some 429)) = Transient
   \<and> errorType (fromFetchError ''Failed to get repository: 404 Not Found''
       (ErrorObject ''Error'' ''Not Found'') (Some 404)) = Permanent"
  using fromFetchError_status_classification
          [of "''Failed to get repository: 429 slow down''" "ErrorObject ''Error'' ''slow down''" 429]
        fromFetchError_status_classification
          [of "''Failed to get repository: 404 Not Found''" "ErrorObject ''Error'' ''Not Found''" 404]
  by simp

section \<open>Classification by message\<close>

text \<open>
  C2. With no status code: an \<open>Error\<close> whose message mentions, ignoring case, one of
  the listed substrings is transient; an \<open>Error\<close> whose message mentions none of them
  (``invalid credentials'', say) is permanent; a value that is not an \<open>Error\<close> is
  permanent.
\<close>

theorem fromFetchError_message_classification:
  "(list_ex (mentions m) network_markers \<longrightarrow>
      errorType (fromFetchError msg (ErrorObject n m) None) = Transient)
   \<and> (\<not> list_ex (mentions m) network_markers \<longrightarrow>
      errorType (fromFetchError msg (ErrorObject n m) None) = Permanent)
   \<and> errorType (fromFetchError msg (NonError v) None) = Permanent
   \<and> errorType (fromFetchError msg (ErrorObject n ''invalid credentials'') None) = Permanent"
proof -
  have "\<not> isTransientNetworkError (ErrorObject n ''invalid credentials'')"
    unfolding isTransientNetworkError_markers by (rule invalid_credentials_no_marker)
  then show ?thesis
    by (simp add: errorType_no_status isTransientNetworkError_mentions)
qed

theorem fromFetchError_message_classification_witness:
  "list_ex (mentions ''connect ETIMEDOUT 10.0.0.1:443'') network_markers
   \<and> errorType (fromFetchError ''Failed to generate GitHub App token: connect ETIMEDOUT 10.0.0.1:443''
         (ErrorObject ''Error'' ''connect ETIMEDOUT 10.0.0.1:443'') None) = Transient
   \<and> \<not> list_ex (mentions ''Bad credentials'') network_markers
   \<and> errorType (fromFetchError ''Failed to generate GitHub App token: Bad credentials''
         (ErrorObject ''Error'' ''Bad credentials'') None) = Permanent"
proof -
  have yes: "list_ex (mentions ''connect ETIMEDOUT 10.0.0.1:443'') network_markers"
    by code_simp
  have no: "\<not> list_ex (mentions ''Bad credentials'') network_markers"
    by code_simp
  show ?thesis
    using yes no
      fromFetchError_message_classification
        [where m = "''connect ETIMEDOUT 10.0.0.1:443''" and n = "''Error''"
           and msg = "''Failed to generate GitHub App token: connect ETIMEDOUT 10.0.0.1:443''"]
      fromFetchError_message_classification
        [where m = "''Bad credentials''" and n = "''Error''"
           and msg = "''Failed to generate GitHub App token: Bad credentials''"]
    by blast
qed

text \<open>
  C5, as stated: any two messages that differ only in letter case are classified alike.
  The small long s (U+017F) has the capital \<open>S\<close> and the small dotless i (U+0131) the
  capital \<open>I\<close>, and \<open>toLowerCase\<close> leaves both unchanged: the message ``econnre'', U+017F,
  ``et'' holds no listed substring while ``ECONNRESET'' does, and likewise ``t'',
  U+0131, ``meout'' against ``TIMEOUT''.
\<close>

theorem isTransientNetworkError_case_variant_counterexample:
  "case_variant_utf16 (literal ''econnre'' @ [SmallLongS] @ literal ''et'') (literal ''ECONNRESET'')
   \<and> isTransientNetworkError_runtime
         (RuntimeError ''Error'' (Some (literal ''econnre'' @ [SmallLongS] @ literal ''et'')))
       = Inr False
   \<and> isTransientNetworkError_runtime (RuntimeError ''Error'' (Some (literal ''ECONNRESET'')))
       = Inr True
   \<and> case_variant_utf16 (literal ''t'' @ [SmallDotlessI] @ literal ''meout'') (literal ''TIMEOUT'')
   \<and> isTransientNetworkError_runtime
         (RuntimeError ''Error'' (Some (literal ''t'' @ [SmallDotlessI] @ literal ''meout'')))
       = Inr False
   \<and> isTransientNetworkError_runtime (RuntimeError ''Error'' (Some (literal ''TIMEOUT'')))
       = Inr True"
  by code_simp

text \<open>
  C5, amended. The test is a plain containment test on the lower-cased message: the
  classifier answers true exactly when \<open>message.toLowerCase()\<close> holds one of the listed
  substrings at some position. So two messages with the same lower-casing are
  classified alike, in particular two messages that differ only in the case of letters
  of U+0000..U+00FF; and a message that holds a listed substring anywhere, in any such
  case and between any other text, is transient.
\<close>

theorem isTransientNetworkError_lower_cased_containment:
  "isTransientNetworkError_runtime (RuntimeError n (Some m)) =
      Inr (\<exists>s \<in> set network_markers. \<exists>pre post. toLowerCase_utf16 m = pre @ literal s @ post)
   \<and> (toLowerCase_utf16 m = toLowerCase_utf16 m' \<longrightarrow>
        isTransientNetworkError_runtime (RuntimeError n (Some m))
          = isTransientNetworkError_runtime (RuntimeError n' (Some m')))
   \<and> (case_variant_latin m m' \<longrightarrow>
        isTransientNetworkError_runtime (RuntimeError n (Some m))
          = isTransientNetworkError_runtime (RuntimeError n' (Some m')))
   \<and> (s \<in> set network_markers \<and> case_variant w s \<longrightarrow>
        isTransientNetworkError_runtime (RuntimeError n (Some (pre @ literal w @ post)))
          = Inr True
        \<and> (\<exists>r. fromFetchError_runtime msg (RuntimeError n (Some (pre @ literal w @ post))) None
                  = Inr r \<and> errorType r = Transient))"
proof -
  have same: "isTransientNetworkError_runtime (RuntimeError n (Some m))
          = isTransientNetworkError_runtime (RuntimeError n' (Some m'))"
    if "toLowerCase_utf16 m = toLowerCase_utf16 m'"
    using that by (simp only: isTransientNetworkError_runtime_markers)
  have variant: "isTransientNetworkError_runtime (RuntimeError n (Some m))
          = isTransientNetworkError_runtime (RuntimeError n' (Some m'))"
    if "case_variant_latin m m'"
    using case_variant_latin_lower [OF that] by (rule same)
  have embedded: "isTransientNetworkError_runtime (RuntimeError n (Some (pre @ literal w @ post)))
          = Inr True"
    if mk: "s \<in> set network_markers" and cv: "case_variant w s"
  proof -
    have "toLowerCase w = s"
      using case_variant_toLowerCase [OF cv] network_markers_lower [OF mk] by simp
    then have "toLowerCase_utf16 (pre @ literal w @ post)
                 = toLowerCase_utf16 pre @ literal s @ toLowerCase_utf16 post"
      by (simp add: toLowerCase_utf16_append toLowerCase_utf16_literal)
    then have "\<exists>s \<in> set network_markers. \<exists>a b.
                 toLowerCase_utf16 (pre @ literal w @ post) = a @ literal s @ b"
      using mk by blast
    then show ?thesis by (simp only: isTransientNetworkError_runtime_contains)
  qed
  have classified: "\<exists>r. fromFetchError_runtime msg
                        (RuntimeError n (Some (pre @ literal w @ post))) None = Inr r
                      \<and> errorType r = Transient"
    if "s \<in> set network_markers" and "case_variant w s"
    using embedded [OF that]
    by (simp add: fromFetchError_runtime_def new_SourceControlProviderError_def)
  have p1: "isTransientNetworkError_runtime (RuntimeError n (Some m)) =
      Inr (\<exists>s \<in> set network_markers. \<exists>pre post. toLowerCase_utf16 m = pre @ literal s @ post)"
    by (rule isTransientNetworkError_runtime_contains)
  have p2: "toLowerCase_utf16 m = toLowerCase_utf16 m' \<longrightarrow>
        isTransientNetworkError_runtime (RuntimeError n (Some m))
          = isTransientNetworkError_runtime (RuntimeError n' (Some m'))"
    using same by blast
  have p3: "case_variant_latin m m' \<longrightarrow>
        isTransientNetworkError_runtime (RuntimeError n (Some m))
          = isTransientNetworkError_runtime (RuntimeError n' (Some m'))"
    using variant by blast
  have p4: "s \<in> set network_markers \<and> case_variant w s \<longrightarrow>
        isTransientNetworkError_runtime (RuntimeError n (Some (pre @ literal w @ post)))
          = Inr True
        \<and> (\<exists>r. fromFetchError_runtime msg (RuntimeError n (Some (pre @ literal w @ post))) None
                  = Inr r \<and> errorType r = Transient)"
    using embedded classified by blast
  show ?thesis using p1 p2 p3 p4 by (intro conjI)
qed

theorem isTransientNetworkError_lower_cased_containment_witness:
  "toLowerCase_utf16 (literal ''NETWOR'' @ [KelvinSign]) = toLowerCase_utf16 (literal ''network'')
   \<and> isTransientNetworkError_runtime (RuntimeError ''Error'' (Some (literal ''NETWOR'' @ [KelvinSign])))
       = isTransientNetworkError_runtime (RuntimeError ''TypeError'' (Some (literal ''network'')))
   \<and> ''network'' \<in> set network_markers \<and> case_variant ''NetWork'' ''network''
   \<and> isTransientNetworkError_runtime
         (RuntimeError ''Error'' (Some (literal ''social '' @ literal ''NetWork'' @ literal ''ing event'')))
       = Inr True"
proof -
  have lc: "toLowerCase_utf16 (literal ''NETWOR'' @ [KelvinSign])
              = toLowerCase_utf16 (literal ''network'')"
    by code_simp
  have mk: "''network'' \<in> set network_markers" by (simp add: network_markers_def)
  have cv: "case_variant ''NetWork'' ''network''" by code_simp
  show ?thesis
    using lc mk cv
      isTransientNetworkError_lower_cased_containment
        [where n = "''Error''" and n' = "''TypeError''"
           and m = "literal ''NETWOR'' @ [KelvinSign]" and m' = "literal ''network''"
           and s = "''network''" and w = "''NetWork''" and msg = "''x''"
           and pre = "literal ''social ''" and post = "literal ''ing event''"]
    by blast
qed

section \<open>Precedence, totality and the other fields\<close>

text \<open>
  C3. With a status code supplied the error type depends on the status only, not on the
  raw error: two raw errors give the same type; status 503 with the message
  ``invalid token'', which matches no substring, is transient, and status 404 with a
  message that matches is permanent.
\<close>

theorem fromFetchError_status_precedence:
  "errorType (fromFetchError msg e1 (Some st)) = errorType (fromFetchError msg e2 (Some st))
   \<and> \<not> isTransientNetworkError (ErrorObject n ''invalid token'')
   \<and> errorType (fromFetchError msg (ErrorObject n ''invalid token'') (Some 503)) = Transient
   \<and> isTransientNetworkError (ErrorObject n ''network timeout'')
   \<and> errorType (fromFetchError msg (ErrorObject n ''network timeout'') (Some 404)) = Permanent"
  using invalid_token_no_marker network_timeout_marker
  by (simp add: errorType_with_status isTransientStatus_def isTransientNetworkError_markers)

theorem fromFetchError_status_precedence_witness:
  "errorType (fromFetchError ''Failed to create PR: 503 x'' (ErrorObject ''Error'' ''fetch failed'') (Some 503))
     = errorType (fromFetchError ''Failed to create PR: 503 x'' (NonError ''x'') (Some 503))
   \<and> errorType (fromFetchError ''Failed to create PR: 503 x'' (ErrorObject ''Error'' ''invalid token'') (Some 503))
     = Transient"
  using fromFetchError_status_precedence
          [where msg = "''Failed to create PR: 503 x''" and ?e1.0 = "ErrorObject ''Error'' ''fetch failed''"
             and ?e2.0 = "NonError ''x''" and st = 503 and n = "''Error''"]
  by blast

text \<open>
  C4, as stated: \<open>fromFetchError\<close> never raises, for every raw error value. With no
  status and an \<open>Error\<close> whose message is not a string, \<open>error.message.toLowerCase()\<close>
  throws a \<open>TypeError\<close>.
\<close>

theorem fromFetchError_raises_counterexample:
  "fromFetchError_runtime ''Failed to generate GitHub App token: undefined''
     (RuntimeError ''Error'' None) None = Inl TypeError"
  by (simp add: fromFetchError_runtime_def)

text \<open>
  C4, amended. \<open>fromFetchError\<close> returns one error object, whose type is transient or
  permanent and not both, whenever a status is supplied (the type then follows the
  status, whatever the raw error), or the raw error is an \<open>Error\<close> whose message is a
  string (the type then follows the containment test on the lower-cased message), or
  the raw error is not an \<open>Error\<close> (permanent). With no status and an \<open>Error\<close> whose
  message is not a string it throws a \<open>TypeError\<close>.
\<close>

theorem fromFetchError_runtime_total:
  "(\<exists>r. fromFetchError_runtime msg error (Some st) = Inr r
        \<and> errorType r = (if isTransientStatus st then Transient else Permanent)
        \<and> (errorType r = Transient \<or> errorType r = Permanent)
        \<and> \<not> (errorType r = Transient \<and> errorType r = Permanent))
   \<and> (\<exists>r. fromFetchError_runtime msg (RuntimeError n (Some m)) None = Inr r
        \<and> errorType r =
            (if \<exists>s \<in> set network_markers. \<exists>pre post.
                  toLowerCase_utf16 m = pre @ literal s @ post
             then Transient else Permanent)
        \<and> (errorType r = Transient \<or> errorType r = Permanent)
        \<and> \<not> (errorType r = Transient \<and> errorType r = Permanent))
   \<and> (\<exists>r. fromFetchError_runtime msg (RuntimeOther v) None = Inr r
        \<and> errorType r = Permanent)
   \<and> fromFetchError_runtime msg (RuntimeError n None) None = Inl TypeError"
proof -
  have a: "\<exists>r. fromFetchError_runtime msg error (Some st) = Inr r
        \<and> errorType r = (if isTransientStatus st then Transient else Permanent)
        \<and> (errorType r = Transient \<or> errorType r = Permanent)
        \<and> \<not> (errorType r = Transient \<and> errorType r = Permanent)"
    by (simp add: fromFetchError_runtime_def new_SourceControlProviderError_def)
  have b: "\<exists>r. fromFetchError_runtime msg (RuntimeError n (Some m)) None = Inr r
        \<and> errorType r =
            (if \<exists>s \<in> set network_markers. \<exists>pre post.
                  toLowerCase_utf16 m = pre @ literal s @ post
             then Transient else Permanent)
        \<and> (errorType r = Transient \<or> errorType r = Permanent)
        \<and> \<not> (errorType r = Transient \<and> errorType r = Permanent)"
    unfolding fromFetchError_runtime_def isTransientNetworkError_runtime_contains
    by (simp add: new_SourceControlProviderError_def)
  have c: "\<exists>r. fromFetchError_runtime msg (RuntimeOther v) None = Inr r
        \<and> errorType r = Permanent"
    by (simp add: fromFetchError_runtime_def new_SourceControlProviderError_def)
  have d: "fromFetchError_runtime msg (RuntimeError n None) None = Inl TypeError"
    by (simp add: fromFetchError_runtime_def)
  show ?thesis using a b c d by (intro conjI)
qed

theorem fromFetchError_runtime_total_witness:
  "(\<exists>r. fromFetchError_runtime ''Failed to create PR: 502 Bad Gateway''
          (RuntimeError ''Error'' None) (Some 502) = Inr r \<and> errorType r = Transient)
   \<and> (\<exists>r. fromFetchError_runtime ''Failed to generate GitHub App token: fetch failed''
          (RuntimeError ''TypeError'' (Some (literal ''fetch failed''))) None = Inr r
          \<and> errorType r = Transient)
   \<and> (\<exists>r. fromFetchError_runtime ''Failed to generate GitHub App token: 42''
          (RuntimeOther ''42'') None = Inr r \<and> errorType r = Permanent)"
proof -
  have mk: "\<exists>s \<in> set network_markers. \<exists>pre post.
      toLowerCase_utf16 (literal ''fetch failed'') = pre @ literal s @ post"
  proof (intro bexI exI)
    show "toLowerCase_utf16 (literal ''fetch failed'') = [] @ literal ''fetch failed'' @ []"
      by (simp add: toLowerCase_utf16_literal toLowerCase_def toLowerCase_unit_def)
    show "''fetch failed'' \<in> set network_markers" by (simp add: network_markers_def)
  qed
  have w1: "\<exists>r. fromFetchError_runtime ''Failed to create PR: 502 Bad Gateway''
          (RuntimeError ''Error'' None) (Some 502) = Inr r \<and> errorType r = Transient"
    using fromFetchError_runtime_total
        [where msg = "''Failed to create PR: 502 Bad Gateway''"
           and error = "RuntimeError ''Error'' None" and st = 502
           and n = "''Error''" and m = "[]" and v = "''x''", THEN conjunct1]
    by (auto simp add: isTransientStatus_def)
  have w2: "\<exists>r. fromFetchError_runtime ''Failed to generate GitHub App token: fetch failed''
          (RuntimeError ''TypeError'' (Some (literal ''fetch failed''))) None = Inr r
          \<and> errorType r = Transient"
    using mk fromFetchError_runtime_total
        [where msg = "''Failed to generate GitHub App token: fetch failed''"
           and error = "RuntimeError ''Error'' None" and st = 502
           and n = "''TypeError''" and m = "literal ''fetch failed''" and v = "''x''",
         THEN conjunct2, THEN conjunct1]
    by auto
  have w3: "\<exists>r. fromFetchError_runtime ''Failed to generate GitHub App token: 42''
          (RuntimeOther ''42'') None = Inr r \<and> errorType r = Permanent"
    using fromFetchError_runtime_total
        [where msg = "''Failed to generate GitHub App token: 42''"
           and error = "RuntimeError ''Error'' None" and st = 502
           and n = "''Error''" and m = "[]" and v = "''42''",
         THEN conjunct2, THEN conjunct2, THEN conjunct1] .
  show ?thesis using w1 w2 w3 by (intro conjI)
qed

text \<open>
  C6. \<open>httpStatus\<close> is present exactly when a status code was supplied, and is then that
  status; with no status supplied it is absent.
\<close>

theorem fromFetchError_httpStatus:
  "httpStatus (fromFetchError msg error stat) = stat
   \<and> (httpStatus (fromFetchError msg error stat) \<noteq> None) = (stat \<noteq> None)
   \<and> httpStatus (fromFetchError msg error (Some st)) = Some st
   \<and> httpStatus (fromFetchError msg error None) = None"
  by (cases stat) (simp_all add: fromFetchError_def new_SourceControlProviderError_def)

theorem fromFetchError_httpStatus_witness:
  "httpStatus (fromFetchError ''m'' (ErrorObject ''Error'' ''Not Found'') (Some 404)) = Some 404
   \<and> httpStatus (fromFetchError ''m'' (ErrorObject ''Error'' ''fetch failed'') None) = None"
  using fromFetchError_httpStatus [of "''m''" "ErrorObject ''Error'' ''Not Found''" "Some 404" 404]
        fromFetchError_httpStatus [of "''m''" "ErrorObject ''Error'' ''fetch failed''" None 0]
  by simp

text \<open>
  C7, as stated: every call keeps the raw error in \<open>cause\<close>. A thrown value that is not
  an \<open>Error\<close> is not kept: \<open>cause\<close> is absent.
\<close>

theorem fromFetchError_cause_counterexample:
  "cause (fromFetchError ''Failed to generate GitHub App token: boom'' (NonError ''boom'') None)
     \<noteq> Some (NonError ''boom'')
   \<and> cause (fromFetchError ''Failed to generate GitHub App token: boom'' (NonError ''boom'') None)
     = None"
  by (simp add: fromFetchError_def new_SourceControlProviderError_def)

text \<open>
  C7, amended. A raw error that is an instance of \<open>Error\<close> is kept in \<open>cause\<close>; for any
  other raw value \<open>cause\<close> is absent. The error type is fixed by the status when there
  is one, else by the message of the raw error, and the constructor stores the type it
  is given whatever the cause.
\<close>

theorem fromFetchError_cause:
  "(instanceofError error \<longrightarrow> cause (fromFetchError msg error stat) = Some error)
   \<and> (\<not> instanceofError error \<longrightarrow> cause (fromFetchError msg error stat) = None)
   \<and> errorType (fromFetchError msg error (Some st)) =
        (if isTransientStatus st then Transient else Permanent)
   \<and> errorType (fromFetchError msg (ErrorObject n m) None) =
        (if list_ex (mentions m) network_markers then Transient else Permanent)
   \<and> errorType (fromFetchError msg (NonError v) None) = Permanent
   \<and> errorType (new_SourceControlProviderError msg t stat c) = t"
  by (cases stat)
     (simp_all add: fromFetchError_def new_SourceControlProviderError_def
        isTransientNetworkError_mentions)

theorem fromFetchError_cause_witness:
  "instanceofError (ErrorObject ''Error'' ''Bad credentials'')
   \<and> cause (fromFetchError ''m'' (ErrorObject ''Error'' ''Bad credentials'') (Some 401))
       = Some (ErrorObject ''Error'' ''Bad credentials'')
   \<and> \<not> instanceofError (NonError ''boom'')
   \<and> cause (fromFetchError ''m'' (NonError ''boom'') None) = None"
  using fromFetchError_cause [where error = "ErrorObject ''Error'' ''Bad credentials''"
          and msg = "''m''" and stat = "Some 401" and c = "None :: js_value option"]
        fromFetchError_cause [where error = "NonError ''boom''" and msg = "''m''" and stat = None
          and c = "None :: js_value option"]
  by simp

section \<open>The provider\<close>

text \<open>
  C8. Labels and reviewers are best effort. \<open>addLabels\<close> and \<open>requestReviewers\<close> never
  throw; a rejected request or a response that is not ok adds one warning to the console,
  with the raw error or the status, and nothing is classified. When the request that
  creates the pull request resolves with an ok response whose body parses,
  \<open>createPullRequest\<close> returns its result whatever the two later requests do, and what
  it returns or throws is the same for any two HTTP layers that agree on the creating
  request.
\<close>

theorem createPullRequest_best_effort:
  "fst (addLabels F tok ow rp n ls con) = Inr ()
   \<and> fst (requestReviewers F tok ow rp n rs con) = Inr ()
   \<and> (F (labels_request tok ow rp n ls) = Rejected e \<longrightarrow>
        snd (addLabels F tok ow rp n ls con) =
          con @ [Warn (''Failed to add labels to PR #'' @ Number_toString n @ '':'') (Some e)])
   \<and> (F (labels_request tok ow rp n ls) = Resolved r \<and> \<not> ok r \<longrightarrow>
        snd (addLabels F tok ow rp n ls con) =
          con @ [Warn (''Failed to add labels to PR #'' @ Number_toString n @ '': ''
                         @ Number_toString (status r)) None])
   \<and> (F (reviewers_request tok ow rp n rs) = Rejected e \<longrightarrow>
        snd (requestReviewers F tok ow rp n rs con) =
          con @ [Warn (''Failed to request reviewers for PR #'' @ Number_toString n @ '':'')
                   (Some e)])
   \<and> (F (reviewers_request tok ow rp n rs) = Resolved r \<and> \<not> ok r \<longrightarrow>
        snd (requestReviewers F tok ow rp n rs con) =
          con @ [Warn (''Failed to request reviewers for PR #'' @ Number_toString n @ '': ''
                         @ Number_toString (status r)) None])
   \<and> (F (create_request auth config) = Resolved response \<and> ok response
        \<and> response_json response = Inr data \<longrightarrow>
        (\<exists>ws. createPullRequest F auth config con =
           (Inr \<lparr>pr_id = data_number data, webUrl = data_html_url data,
                  apiUrl = data_url data,
                  pr_state = (if data_draft data then Draft
                              else if data_merged data then Merged
                              else if data_state data = ''open'' then Open
                              else if data_state data = ''closed'' then Closed
                              else Open),
                  pr_sourceBranch = data_head_ref data,
                  pr_targetBranch = data_base_ref data\<rparr>, con @ ws)))
   \<and> (F (create_request auth config) = F' (create_request auth config) \<longrightarrow>
        fst (createPullRequest F auth config con) = fst (createPullRequest F' auth config con))"
proof -
  have labels_thrown: "snd (addLabels F tok ow rp n ls con) =
      con @ [Warn (''Failed to add labels to PR #'' @ Number_toString n @ '':'') (Some e)]"
    if "F (labels_request tok ow rp n ls) = Rejected e"
    using that by (simp add: addLabels_def)
  have labels_not_ok: "snd (addLabels F tok ow rp n ls con) =
      con @ [Warn (''Failed to add labels to PR #'' @ Number_toString n @ '': ''
                     @ Number_toString (status r)) None]"
    if "F (labels_request tok ow rp n ls) = Resolved r" and "\<not> ok r"
    using that by (simp add: addLabels_def)
  have reviewers_thrown: "snd (requestReviewers F tok ow rp n rs con) =
      con @ [Warn (''Failed to request reviewers for PR #'' @ Number_toString n @ '':'')
               (Some e)]"
    if "F (reviewers_request tok ow rp n rs) = Rejected e"
    using that by (simp add: requestReviewers_def)
  have reviewers_not_ok: "snd (requestReviewers F tok ow rp n rs con) =
      con @ [Warn (''Failed to request reviewers for PR #'' @ Number_toString n @ '': ''
                     @ Number_toString (status r)) None]"
    if "F (reviewers_request tok ow rp n rs) = Resolved r" and "\<not> ok r"
    using that by (simp add: requestReviewers_def)
  show ?thesis
    using labels_thrown labels_not_ok reviewers_thrown reviewers_not_ok
      addLabels_returns [of F tok ow rp n ls con]
      requestReviewers_returns [of F tok ow rp n rs con]
      createPullRequest_created [of F auth config response data con]
      createPullRequest_same_outcome [of F auth config F' con con]
    by blast
qed

theorem createPullRequest_best_effort_witness:
  "example_fetch example_data (create_request example_auth example_config)
       = Resolved (example_response example_data)
   \<and> ok (example_response example_data)
   \<and> response_json (example_response example_data) = Inr example_data
   \<and> example_fetch example_data (labels_request ''ghs_token'' ''acme'' ''widgets'' 7 [''bug''])
       = Rejected (ErrorObject ''TypeError'' ''fetch failed'')
   \<and> snd (addLabels (example_fetch example_data) ''ghs_token'' ''acme'' ''widgets'' 7 [''bug''] [])
       = [Warn ''Failed to add labels to PR #7:'' (Some (ErrorObject ''TypeError'' ''fetch failed''))]
   \<and> snd (requestReviewers (example_fetch example_data) ''ghs_token'' ''acme'' ''widgets'' 7
            [''octocat''] [])
       = [Warn ''Failed to request reviewers for PR #7: 422'' None]
   \<and> (\<exists>ws. createPullRequest (example_fetch example_data) example_auth example_config []
          = (Inr \<lparr>pr_id = 7, webUrl = ''https://github.com/acme/widgets/pull/7'',
                   apiUrl = ''https://api.github.com/repos/acme/widgets/pulls/7'',
                   pr_state = Draft, pr_sourceBranch = ''feature/parser'',
                   pr_targetBranch = ''main''\<rparr>, ws))"
proof -
  have created: "example_fetch example_data (create_request example_auth example_config)
       = Resolved (example_response example_data)"
    by (simp add: example_fetch_def create_request_def)
  have okay: "ok (example_response example_data)"
    and parsed: "response_json (example_response example_data) = Inr example_data"
    by (simp_all add: example_response_def)
  have thrown: "example_fetch example_data
        (labels_request ''ghs_token'' ''acme'' ''widgets'' 7 [''bug''])
       = Rejected (ErrorObject ''TypeError'' ''fetch failed'')"
    by (simp add: example_fetch_def labels_request_def)
  let ?r = "\<lparr>ok = False, status = 422, response_text = Inr ''Unprocessable'',
             response_json = Inl (ErrorObject ''SyntaxError'' ''Unexpected token'')\<rparr>
             :: pull_request_data Response"
  have refused: "example_fetch example_data
        (reviewers_request ''ghs_token'' ''acme'' ''widgets'' 7 [''octocat'']) = Resolved ?r"
    by (simp add: example_fetch_def reviewers_request_def)
  show ?thesis
    using created okay parsed thrown refused
      createPullRequest_best_effort
        [where F = "example_fetch example_data" and tok = "''ghs_token''" and ow = "''acme''"
           and rp = "''widgets''" and n = 7 and ls = "[''bug'']" and rs = "[''octocat'']"
           and con = "[]" and e = "ErrorObject ''TypeError'' ''fetch failed''" and r = ?r
           and auth = example_auth and config = example_config
           and response = "example_response example_data" and data = example_data]
    by (simp add: Number_toString_7 Number_toString_422 example_data_def)
qed

text \<open>
  C9. A provider constructed without \<open>appConfig\<close> throws, from every call of
  \<open>generatePushAuth\<close>, a permanent error with no \<open>httpStatus\<close>, and
  \<open>generateInstallationToken\<close> has not been called. With \<open>appConfig\<close> present, a failure
  of \<open>generateInstallationToken\<close> is classified by \<open>fromFetchError\<close> with no status, that
  is by the message of the error.
\<close>

theorem generatePushAuth_classification:
  "(config_appConfig config = None \<longrightarrow>
      (\<exists>e. generatePushAuth G (new_GitHubSourceControlProvider config) calls
             = (Inl (Classified e), calls)
           \<and> errorType e = Permanent \<and> httpStatus e = None))
   \<and> (config_appConfig config = Some cfg \<and> G cfg = Inl error \<longrightarrow>
      (\<exists>msg. generatePushAuth G (new_GitHubSourceControlProvider config) calls
               = (Inl (Classified (fromFetchError msg error None)), calls @ [cfg])
           \<and> errorType (fromFetchError msg error None)
               = (if isTransientNetworkError error then Transient else Permanent)
           \<and> httpStatus (fromFetchError msg error None) = None))"
  by (simp add: generatePushAuth_def new_GitHubSourceControlProvider_def
        new_SourceControlProviderError_def errorType_no_status)
     (simp add: fromFetchError_def new_SourceControlProviderError_def)

theorem generatePushAuth_classification_witness:
  "config_appConfig \<lparr>config_appConfig = (None :: string option)\<rparr> = None
   \<and> (\<exists>e. generatePushAuth (\<lambda>cfg. Inr ''ghs_token'')
             (new_GitHubSourceControlProvider \<lparr>config_appConfig = (None :: string option)\<rparr>) []
             = (Inl (Classified e), [])
          \<and> errorType e = Permanent \<and> httpStatus e = None)
   \<and> config_appConfig \<lparr>config_appConfig = Some ''app-1''\<rparr> = Some ''app-1''
   \<and> (\<exists>msg. generatePushAuth (\<lambda>cfg. Inl (ErrorObject ''Error'' ''fetch failed''))
                (new_GitHubSourceControlProvider \<lparr>config_appConfig = Some ''app-1''\<rparr>) []
             = (Inl (Classified (fromFetchError msg (ErrorObject ''Error'' ''fetch failed'') None)),
                [''app-1'']))"
  using generatePushAuth_classification
          [where config = "\<lparr>config_appConfig = (None :: string option)\<rparr>"
             and G = "\<lambda>cfg. Inr ''ghs_token''" and calls = "[]"]
        generatePushAuth_classification
          [where config = "\<lparr>config_appConfig = Some ''app-1''\<rparr>" and cfg = "''app-1''"
             and G = "\<lambda>cfg. Inl (ErrorObject ''Error'' ''fetch failed'')" and calls = "[]"
             and error = "ErrorObject ''Error'' ''fetch failed''"]
  by auto

text \<open>
  C10. The state of the created pull request: draft when \<open>draft\<close> is true, whatever
  \<open>merged\<close> and \<open>state\<close> say; otherwise merged when \<open>merged\<close> is true; otherwise open or
  closed as \<open>state\<close> says; and open for any other \<open>state\<close>.
\<close>

theorem createPullRequest_state_precedence:
  assumes "F (create_request auth config) = Resolved response"
    and "ok response" and "response_json response = Inr data"
  shows "\<exists>res con'. createPullRequest F auth config con = (Inr res, con')
     \<and> (data_draft data \<longrightarrow> pr_state res = Draft)
     \<and> (\<not> data_draft data \<and> data_merged data \<longrightarrow> pr_state res = Merged)
     \<and> (\<not> data_draft data \<and> \<not> data_merged data \<and> data_state data = ''open''
          \<longrightarrow> pr_state res = Open)
     \<and> (\<not> data_draft data \<and> \<not> data_merged data \<and> data_state data = ''closed''
          \<longrightarrow> pr_state res = Closed)
     \<and> (\<not> data_draft data \<and> \<not> data_merged data \<and> data_state data \<noteq> ''open''
          \<and> data_state data \<noteq> ''closed'' \<longrightarrow> pr_state res = Open)"
proof -
  from createPullRequest_created [of F auth config response data con] assms
  obtain ws where "createPullRequest F auth config con =
      (Inr \<lparr>pr_id = data_number data, webUrl = data_html_url data,
             apiUrl = data_url data,
             pr_state = (if data_draft data then Draft
                         else if data_merged data then Merged
                         else if data_state data = ''open'' then Open
                         else if data_state data = ''closed'' then Closed
                         else Open),
             pr_sourceBranch = data_head_ref data,
             pr_targetBranch = data_base_ref data\<rparr>, con @ ws)"
    by blast
  then show ?thesis by simp
qed

theorem createPullRequest_state_precedence_witness:
  "(\<exists>res con'. createPullRequest (example_fetch example_data) example_auth example_config []
        = (Inr res, con') \<and> data_draft example_data \<and> data_merged example_data
        \<and> data_state example_data = ''closed'' \<and> pr_state res = Draft)
   \<and> (\<exists>res con'. createPullRequest
          (example_fetch (example_data\<lparr>data_draft := False, data_merged := False,
                                       data_state := ''locked''\<rparr>))
          example_auth example_config []
        = (Inr res, con') \<and> pr_state res = Open)"
proof -
  have a: "example_fetch d (create_request example_auth example_config)
             = Resolved (example_response d)" for d
    by (simp add: example_fetch_def create_request_def)
  have b: "ok (example_response d)" and c: "response_json (example_response d) = Inr d" for d
    by (simp_all add: example_response_def)
  let ?d = "example_data\<lparr>data_draft := False, data_merged := False,
                         data_state := ''locked''\<rparr>"
  show ?thesis
    using createPullRequest_state_precedence
            [where F = "example_fetch example_data" and auth = example_auth
               and config = example_config and response = "example_response example_data"
               and data = example_data and con = "[]", OF a b c]
          createPullRequest_state_precedence
            [where F = "example_fetch ?d" and auth = example_auth
               and config = example_config and response = "example_response ?d"
               and data = ?d and con = "[]", OF a b c]
    by (simp add: example_data_def)
qed

end
